theory Spec2Isabelle
  imports Complex_Main
begin

section \<open>Shared data: errors, trials and the experiment log\<close>

text \<open>
  Exceptions of the Python program are values. \<open>LibError\<close> stands for any exception raised
  inside the \<open>lib.dataprocessing\<close> package (opening the log, decoding frames, ...), named
  by a string; the other constructors are the exceptions the modelled code raises itself.
\<close>

datatype error =
    SystemExit
  | ValueError
  | AssertionError
  | KeyError
  | IndexError
  | AxisError
  | LibError string

text \<open>A trial is the dictionary with the keys \<open>start\<close>, \<open>end\<close> and \<open>score\<close>.\<close>

record trial =
  trial_start :: real
  trial_end :: real
  trial_score :: real

text \<open>
  An \<open>ExperimentData\<close> object, seen through the two methods the scripts call. Both may
  raise.
\<close>

record exp_data =
  get_trials :: "nat \<Rightarrow> error + trial list"
  get_video_lecture_timestamps :: "error + real \<times> real"

section \<open>\<open>lib/dataprocessing/statistics.py\<close>\<close>

text \<open>
  The private field \<open>__data\<close> is either the initial one-dimensional array
  \<open>np.array([False])\<close> or a two-dimensional matrix of floats, one row per subject.
\<close>

datatype stats_data = Sentinel | Matrix "real list list"


fun data_any :: "stats_data \<Rightarrow> bool" where
  "data_any Sentinel = False"
| "data_any (Matrix rows) = list_ex (list_ex (\<lambda>v. v \<noteq> 0)) rows"

text \<open>\<open>data[0, idx] = v\<close> on a row; an index past the end raises.\<close>

definition setitem :: "real list \<Rightarrow> nat \<Rightarrow> real \<Rightarrow> error + real list" where
  "setitem row idx v = (if idx < length row then Inr (row[idx := v]) else Inl IndexError)"

fun store_trials :: "nat \<Rightarrow> (nat \<times> trial) list \<Rightarrow> real list \<Rightarrow> error + real list" where
  "store_trials n [] row = Inr row"
| "store_trials n ((i, t) # rest) row =
     (case setitem row (((n - 1) * 5) + i) (trial_score t) of
        Inl e \<Rightarrow> Inl e
      | Inr row' \<Rightarrow> store_trials n rest row')"

fun store_levels :: "exp_data \<Rightarrow> nat list \<Rightarrow> real list \<Rightarrow> error + real list" where
  "store_levels ed [] row = Inr row"
| "store_levels ed (n # ns) row =
     (case get_trials ed n of
        Inl e \<Rightarrow> Inl e
      | Inr trials \<Rightarrow>
          (case store_trials n (enumerate 0 trials) row of
             Inl e \<Rightarrow> Inl e
           | Inr row' \<Rightarrow> store_levels ed ns row'))"

text \<open>The row built by the two nested loops, starting from \<open>np.zeros([1,25])\<close>.\<close>

definition subject_row :: "exp_data \<Rightarrow> error + real list" where
  "subject_row ed = store_levels ed [1..<6] (replicate 25 0)"

text \<open>\<open>np.concatenate((self.__data, data), axis=0)\<close>: the dimensions must agree.\<close>

fun concatenate_rows :: "stats_data \<Rightarrow> real list \<Rightarrow> error + stats_data" where
  "concatenate_rows Sentinel row = Inl ValueError"
| "concatenate_rows (Matrix rows) row = Inr (Matrix (rows @ [row]))"

text \<open>
  \<open>add_subject_data\<close>. The constructor \<open>ExperimentData\<close> lives in a module that is not
  part of the verified sources, so it is a parameter.
\<close>

definition add_subject_data ::
  "(string \<Rightarrow> error + exp_data) \<Rightarrow> stats_data \<Rightarrow> string \<Rightarrow> error + stats_data" where
  "add_subject_data ExperimentData self data_csv_path =
     (case ExperimentData data_csv_path of
        Inl e \<Rightarrow> Inl e
      | Inr ed \<Rightarrow>
          (case subject_row ed of
             Inl e \<Rightarrow> Inl e
           | Inr data \<Rightarrow>
               if data_any self then concatenate_rows self data
               else Inr (Matrix [data])))"







section \<open>\<open>process_data_raw.py\<close>: the command line\<close>

text \<open>
  The command line is taken after tokenisation: which value, if any, the user gave for
  each declared argument. \<open>cli_output\<close> and \<open>cli_crop\<close> are \<open>None\<close> when the option is
  absent; \<open>cli_lecture_video\<close> tells whether the flag is present.
\<close>

record cli =
  cli_ProcessingMethod :: string
  cli_ExperimentData :: string
  cli_output :: "string option"
  cli_crop :: "string option"
  cli_lecture_video :: bool

text \<open>The value of \<open>arguments.crop\<close>: the integer default or the string from the command line.\<close>

datatype pyval = PyInt int | PyStr string

record namespace =
  arg_ProcessingMethod :: string
  arg_ExperimentData :: string
  arg_output :: string
  arg_crop :: pyval
  arg_lecture_video :: bool

definition choices :: "string list" where
  "choices = [''eye'', ''face'', ''opticalflow'']"

text \<open>
  \<open>parser.parse_args()\<close> with the five \<open>add_argument\<close> declarations: a positional value
  outside \<open>choices\<close> makes argparse exit; absent options take their \<open>default\<close>.
\<close>

definition parse_args :: "cli \<Rightarrow> error + namespace" where
  "parse_args c =
     (if cli_ProcessingMethod c \<in> set choices then
        Inr \<lparr>arg_ProcessingMethod = cli_ProcessingMethod c,
             arg_ExperimentData = cli_ExperimentData c,
             arg_output = (case cli_output c of None \<Rightarrow> ''.'' | Some s \<Rightarrow> s),
             arg_crop = (case cli_crop c of None \<Rightarrow> PyInt 64 | Some s \<Rightarrow> PyStr s),
             arg_lecture_video = (if cli_lecture_video c then True else False)\<rparr>
      else Inl SystemExit)"

subsection \<open>The builtin \<open>int\<close>\<close>

text \<open>
  \<open>int(s)\<close> on an ASCII string, base 10: surrounding whitespace is dropped, one sign is
  allowed, and the digits may be separated by single underscores. The interpreter's limit
  on the number of digits is not modelled.
\<close>

definition is_space :: "char \<Rightarrow> bool" where
  "is_space c = ((of_char c :: nat) \<in> set [9, 10, 11, 12, 13, 28, 29, 30, 31, 32])"

definition strip :: "string \<Rightarrow> string" where
  "strip s = rev (dropWhile is_space (rev (dropWhile is_space s)))"

definition is_digit :: "char \<Rightarrow> bool" where
  "is_digit c = (48 \<le> (of_char c :: nat) \<and> (of_char c :: nat) \<le> 57)"

definition digit_val :: "char \<Rightarrow> int" where
  "digit_val c = int (of_char c) - 48"

fun digits_acc :: "int \<Rightarrow> string \<Rightarrow> int option" where
  "digits_acc acc [] = Some acc"
| "digits_acc acc [c] = (if is_digit c then Some (acc * 10 + digit_val c) else None)"
| "digits_acc acc (c # d # ds) =
     (if c = CHR ''_'' then
        (if is_digit d then digits_acc (acc * 10 + digit_val d) ds else None)
      else if is_digit c then digits_acc (acc * 10 + digit_val c) (d # ds)
      else None)"

definition parse_unsigned :: "string \<Rightarrow> int option" where
  "parse_unsigned s =
     (case s of [] \<Rightarrow> None
      | c # cs \<Rightarrow> if is_digit c then digits_acc (digit_val c) cs else None)"

definition int_of_str :: "string \<Rightarrow> int option" where
  "int_of_str s =
     (case strip s of [] \<Rightarrow> None
      | c # cs \<Rightarrow>
          if c = CHR ''-'' then map_option uminus (parse_unsigned cs)
          else if c = CHR ''+'' then parse_unsigned cs
          else parse_unsigned (c # cs))"

fun py_int :: "pyval \<Rightarrow> error + int" where
  "py_int (PyInt k) = Inr k"
| "py_int (PyStr s) = (case int_of_str s of None \<Rightarrow> Inl ValueError | Some k \<Rightarrow> Inr k)"

subsection \<open>String formatting and \<open>os.path\<close>\<close>

text \<open>\<open>'{}'.format(n)\<close> for an integer: its decimal digits.\<close>

definition digit_char :: "nat \<Rightarrow> char" where
  "digit_char d = ''0123456789'' ! d"

fun str_nat :: "nat \<Rightarrow> string" where
  "str_nat n = (if n < 10 then [digit_char n] else str_nat (n div 10) @ [digit_char (n mod 10)])"

declare str_nat.simps [simp del]

definition str_int :: "int \<Rightarrow> string" where
  "str_int k = (if k < 0 then CHR ''-'' # str_nat (nat (- k)) else str_nat (nat k))"

text \<open>
  \<open>os.path.join(a, *p)\<close> of \<open>posixpath\<close>: a component that starts with a slash replaces
  what was joined so far; otherwise it is appended, after a slash unless the path is empty or
  already ends with one.
\<close>

definition join_step :: "string \<Rightarrow> string \<Rightarrow> string" where
  "join_step path b =
     (if b \<noteq> [] \<and> hd b = CHR ''/'' then b
      else if path = [] \<or> last path = CHR ''/'' then path @ b
      else path @ ''/'' @ b)"

definition os_path_join :: "string \<Rightarrow> string list \<Rightarrow> string" where
  "os_path_join a p = foldl join_step a p"

text \<open>\<open>str.rfind\<close> of one character: the last index, or \<open>-1\<close>.\<close>

definition rfind :: "char \<Rightarrow> string \<Rightarrow> int" where
  "rfind c p = (case filter (\<lambda>i. p ! i = c) (rev [0..<length p]) of [] \<Rightarrow> - 1 | i # _ \<Rightarrow> int i)"

text \<open>
  \<open>os.path.splitext\<close>: the extension starts at the last dot, if that dot lies after the
  last slash and some character between the slash and the dot is not a dot.
\<close>

definition splitext :: "string \<Rightarrow> string \<times> string" where
  "splitext p =
     (let sepIndex = rfind (CHR ''/'') p; dotIndex = rfind (CHR ''.'') p in
      if dotIndex > sepIndex \<and>
         list_ex (\<lambda>k. p ! k \<noteq> CHR ''.'') [nat (sepIndex + 1)..<nat dotIndex]
      then (take (nat dotIndex) p, drop (nat dotIndex) p)
      else (p, []))"

text \<open>
  What the script asks of the operating system. \<open>abspath\<close> depends on the working
  directory, the three tests on the file system before the run.
\<close>

record os_env =
  abspath :: "string \<Rightarrow> string"
  path_exists :: "string \<Rightarrow> bool"
  isdir :: "string \<Rightarrow> bool"
  isfile :: "string \<Rightarrow> bool"

section \<open>\<open>process_data_raw.py\<close>: the run\<close>

text \<open>
  The package \<open>lib.dataprocessing\<close> is used through \<open>util.getExperimentInfo\<close>, the two
  constructors and the three frame methods of a \<open>VideoHandler\<close>; they are parameters. \<open>'f\<close>
  is the type of the array a frame method returns.
\<close>

record 'f video_handler =
  get_frames :: "real \<Rightarrow> real \<Rightarrow> int \<Rightarrow> error + 'f"
  get_eye_frames :: "real \<Rightarrow> real \<Rightarrow> int \<Rightarrow> error + 'f"
  get_optical_flow_frames :: "real \<Rightarrow> real \<Rightarrow> int \<Rightarrow> error + 'f"

record 'f dp_lib =
  getExperimentInfo :: "string \<Rightarrow> error + string \<times> string \<times> string"
  dp_ExperimentData :: "string \<Rightarrow> error + exp_data"
  dp_VideoHandler :: "string \<Rightarrow> error + 'f video_handler"

datatype json = JInt int | JNum real

text \<open>
  The effects of a run, in order: a printed line, \<open>os.makedirs\<close>, a call of the chosen
  frame method, \<open>np.save\<close> and the \<open>json.dump\<close> into a newly opened file. Writing is taken
  to succeed.
\<close>

datatype 'f event =
    Print string
  | MakeDirs string
  | ProcessFrames real real int
  | SaveNpy string 'f
  | WriteJson string "(string \<times> json) list"

type_synonym ('f, 'a) io = "(error + 'a) \<times> 'f event list"

definition io_bind :: "('f, 'a) io \<Rightarrow> ('a \<Rightarrow> ('f, 'b) io) \<Rightarrow> ('f, 'b) io" where
  "io_bind m k =
     (case m of
        (Inl e, evs) \<Rightarrow> (Inl e, evs)
      | (Inr x, evs) \<Rightarrow> (case k x of (r, evs') \<Rightarrow> (r, evs @ evs')))"

definition io_emit :: "'f event \<Rightarrow> ('f, unit) io" where
  "io_emit ev = (Inr (), [ev])"

definition io_lift :: "error + 'a \<Rightarrow> ('f, 'a) io" where
  "io_lift r = (r, [])"

text \<open>A \<open>for\<close> loop: an exception in the body ends the loop.\<close>

fun for_each :: "('a \<Rightarrow> ('f, unit) io) \<Rightarrow> 'a list \<Rightarrow> ('f, unit) io" where
  "for_each body [] = (Inr (), [])"
| "for_each body (x # xs) = io_bind (body x) (\<lambda>_. for_each body xs)"

definition err_bind :: "error + 'a \<Rightarrow> ('a \<Rightarrow> error + 'b) \<Rightarrow> error + 'b" where
  "err_bind m k = (case m of Inl e \<Rightarrow> Inl e | Inr x \<Rightarrow> k x)"

definition py_assert :: "bool \<Rightarrow> error + unit" where
  "py_assert b = (if b then Inr () else Inl AssertionError)"

text \<open>
  The names bound by lines 76 to 90 of the script; \<open>method_str\<close> is the variable \<open>method\<close>.
\<close>

record config =
  method_str :: string
  exp_data_path :: string
  output_path :: string
  cropsize :: int
  lecture_video :: bool
  exp_json :: string
  video_path :: string
  participant :: string

text \<open>Lines 55 to 95: argument parsing, argument processing and the assertion checks.\<close>

definition validate :: "os_env \<Rightarrow> 'f dp_lib \<Rightarrow> cli \<Rightarrow> error + config" where
  "validate env dp c =
     err_bind (parse_args c) (\<lambda>arguments.
     err_bind (py_int (arg_crop arguments)) (\<lambda>crop.
     let m = arg_ProcessingMethod arguments;
         edp = abspath env (arg_ExperimentData arguments);
         outp = abspath env (arg_output arguments);
         lv = arg_lecture_video arguments in
     err_bind (py_assert (path_exists env edp \<and> isdir env edp)) (\<lambda>_.
     err_bind (py_assert (path_exists env outp \<and> isdir env outp)) (\<lambda>_.
     err_bind (py_assert (crop > 0)) (\<lambda>_.
     err_bind (getExperimentInfo dp edp) (\<lambda>(ej, vp, part).
     err_bind (py_assert (path_exists env vp \<and> isfile env vp
                           \<and> snd (splitext vp) = ''.mp4'')) (\<lambda>_.
     err_bind (py_assert (path_exists env ej \<and> isfile env ej
                           \<and> snd (splitext ej) = ''.json'')) (\<lambda>_.
     Inr \<lparr>method_str = m, exp_data_path = edp, output_path = outp, cropsize = crop,
          lecture_video = lv, exp_json = ej, video_path = vp,
          participant = part\<rparr>))))))))"

text \<open>Lines 98 to 106.\<close>

definition print_header :: "config \<Rightarrow> 'f event list" where
  "print_header cfg =
     [Print '''',
      Print (''Processing Method: '' @ method_str cfg),
      Print (''Experiment Data: '' @ exp_json cfg),
      Print (''Video: '' @ video_path cfg),
      Print (''Output Path: '' @ output_path cfg),
      Print (''Cropsize: '' @ str_int (cropsize cfg)),
      Print (''Participant: '' @ participant cfg),
      Print (''Video Part: '' @ (if lecture_video cfg then ''Lecture Video'' else ''N-Back'')),
      Print '''']"

text \<open>The dictionary \<open>method_functions\<close> and the lookup \<open>method_functions[method]\<close>.\<close>

definition method_functions ::
  "'f video_handler \<Rightarrow> (string \<times> (real \<Rightarrow> real \<Rightarrow> int \<Rightarrow> error + 'f)) list" where
  "method_functions video_handler =
     [(''face'', get_frames video_handler),
      (''eye'', get_eye_frames video_handler),
      (''opticalflow'', get_optical_flow_frames video_handler)]"

definition getitem :: "(string \<times> 'v) list \<Rightarrow> string \<Rightarrow> error + 'v" where
  "getitem d k = (case map_of d k of None \<Rightarrow> Inl KeyError | Some v \<Rightarrow> Inr v)"

definition call_process_frames ::
  "(real \<Rightarrow> real \<Rightarrow> int \<Rightarrow> error + 'f) \<Rightarrow> real \<Rightarrow> real \<Rightarrow> int \<Rightarrow> ('f, 'f) io" where
  "call_process_frames process_frames s e c = (process_frames s e c, [ProcessFrames s e c])"

text \<open>Lines 134 to 147: the body of the inner loop, for \<open>i, trial\<close> of \<open>enumerate(trials)\<close>.\<close>

definition trial_out :: "config \<Rightarrow> nat \<Rightarrow> nat \<Rightarrow> string" where
  "trial_out cfg n i =
     os_path_join (output_path cfg)
       [participant cfg, str_nat n @ ''-'' @ str_nat i @ ''-'' @ method_str cfg]"

definition trial_body ::
  "config \<Rightarrow> (real \<Rightarrow> real \<Rightarrow> int \<Rightarrow> error + 'f) \<Rightarrow> nat \<Rightarrow> nat \<times> trial \<Rightarrow> ('f, unit) io" where
  "trial_body cfg process_frames n it =
     (case it of (i, trial) \<Rightarrow>
        io_bind (io_emit (Print (''  Trial '' @ str_nat (i + 1)))) (\<lambda>_.
        io_bind (call_process_frames process_frames (trial_start trial) (trial_end trial)
                   (cropsize cfg)) (\<lambda>frames.
        io_bind (io_emit (SaveNpy (trial_out cfg n i @ ''.npy'') frames)) (\<lambda>_.
        io_emit (WriteJson (trial_out cfg n i @ ''.json'')
                   [(''n'', JInt (int n)), (''score'', JNum (trial_score trial))])))))"

text \<open>Lines 128 to 133: the body of the outer loop.\<close>

definition level_body ::
  "config \<Rightarrow> exp_data \<Rightarrow> (real \<Rightarrow> real \<Rightarrow> int \<Rightarrow> error + 'f) \<Rightarrow> nat \<Rightarrow> ('f, unit) io" where
  "level_body cfg ed process_frames n =
     io_bind (io_emit (Print (''N='' @ str_nat n))) (\<lambda>_.
     io_bind (io_lift (get_trials ed n)) (\<lambda>trials.
     for_each (trial_body cfg process_frames n) (enumerate 0 trials)))"

definition process_trials ::
  "config \<Rightarrow> exp_data \<Rightarrow> (real \<Rightarrow> real \<Rightarrow> int \<Rightarrow> error + 'f) \<Rightarrow> ('f, unit) io" where
  "process_trials cfg ed process_frames =
     io_bind (io_emit (Print ''Processing N-levels...'')) (\<lambda>_.
     for_each (level_body cfg ed process_frames) [1..<6])"

text \<open>Lines 151 to 159: the lecture branch.\<close>

definition lecture_out :: "config \<Rightarrow> string" where
  "lecture_out cfg =
     os_path_join (output_path cfg) [participant cfg, method_str cfg @ ''_lecture_video'']"

definition process_lecture ::
  "config \<Rightarrow> exp_data \<Rightarrow> (real \<Rightarrow> real \<Rightarrow> int \<Rightarrow> error + 'f) \<Rightarrow> ('f, unit) io" where
  "process_lecture cfg ed process_frames =
     io_bind (io_emit (Print ''Processing Lecture Video'')) (\<lambda>_.
     io_bind (io_lift (get_video_lecture_timestamps ed)) (\<lambda>(s, e).
     io_bind (call_process_frames process_frames s e (cropsize cfg)) (\<lambda>frames.
     io_emit (SaveNpy (lecture_out cfg @ ''.npy'') frames))))"

text \<open>Lines 98 to 161.\<close>

definition process :: "'f dp_lib \<Rightarrow> config \<Rightarrow> ('f, unit) io" where
  "process dp cfg =
     io_bind (Inr (), print_header cfg) (\<lambda>_.
     io_bind (io_lift (dp_ExperimentData dp (exp_json cfg))) (\<lambda>ed.
     io_bind (io_lift (dp_VideoHandler dp (video_path cfg))) (\<lambda>video_handler.
     io_bind (io_lift (getitem (method_functions video_handler) (method_str cfg))) (\<lambda>process_frames.
     io_bind (io_emit (MakeDirs (os_path_join (output_path cfg) [participant cfg]))) (\<lambda>_.
     io_bind (if \<not> lecture_video cfg then process_trials cfg ed process_frames
              else process_lecture cfg ed process_frames) (\<lambda>_.
     io_emit (Print (''Output written to ''
                @ os_path_join (output_path cfg) [participant cfg]))))))))"

text \<open>The whole script.\<close>

definition run :: "os_env \<Rightarrow> 'f dp_lib \<Rightarrow> cli \<Rightarrow> ('f, unit) io" where
  "run env dp c = (case validate env dp c of Inl e \<Rightarrow> (Inl e, []) | Inr cfg \<Rightarrow> process dp cfg)"

text \<open>The files a run writes: the arrays and the labels.\<close>

fun is_artifact :: "'f event \<Rightarrow> bool" where
  "is_artifact (SaveNpy p f) = True"
| "is_artifact (WriteJson p l) = True"
| "is_artifact _ = False"





section \<open>The optical-flow method\<close>

text \<open>
  Modelled from the spec: the body of \<open>VideoHandler.get_optical_flow_frames\<close> is not among
  the sources; only the dictionary entry that selects it is. The spec has an encoder
  \<open>encode(frame_t, frame_t+1)\<close> that is applied sequentially across a frame chunk, to
  every pair of consecutive frames.
\<close>

fun OpticalFlowEncoder :: "('r \<Rightarrow> 'r \<Rightarrow> 'o) \<Rightarrow> 'r list \<Rightarrow> 'o list" where
  "OpticalFlowEncoder encode (a # b # rest) = encode a b # OpticalFlowEncoder encode (b # rest)"
| "OpticalFlowEncoder encode _ = []"

section \<open>Example inputs\<close>





text \<open>
  A session directory \<open>/data/s1\<close> with a log and a video, an output directory \<open>/out\<close>
  and the working directory \<open>/home/u\<close>.
\<close>

definition ex_env :: os_env where
  "ex_env =
     \<lparr>abspath = (\<lambda>p. if p = ''.'' then ''/home/u''
                     else if p \<noteq> [] \<and> hd p = CHR ''/'' then p else ''/home/u/'' @ p),
      path_exists = (\<lambda>p. p \<in> set [''/home/u'', ''/data/s1'', ''/out'',
                                     ''/data/s1/rec.mp4'', ''/data/s1/log.json'']),
      isdir = (\<lambda>p. p \<in> set [''/home/u'', ''/data/s1'', ''/out'']),
      isfile = (\<lambda>p. p \<in> set [''/data/s1/rec.mp4'', ''/data/s1/log.json''])\<rparr>"

text \<open>
  Twenty-five trials of 8 time units, one every 10 units; trial \<open>i\<close> has score \<open>i\<close>. The
  end of trial 1 of level 1 is moved by \<open>late\<close>. The lecture runs from 260 to 290.
\<close>

definition ex_trials :: "real \<Rightarrow> nat \<Rightarrow> trial list" where
  "ex_trials late n =
     map (\<lambda>i. \<lparr>trial_start = real (10 * (5 * (n - 1) + i)),
                trial_end = real (10 * (5 * (n - 1) + i) + 8)
                              + (if n = 1 \<and> i = 1 then late else 0),
                trial_score = real i\<rparr>) [0..<5]"

definition ex_session :: "real \<Rightarrow> exp_data" where
  "ex_session late =
     \<lparr>get_trials = (\<lambda>n. Inr (ex_trials late n)),
      get_video_lecture_timestamps = Inr (260, 290)\<rparr>"

text \<open>
  A video of the given duration. The array of a frame method is stood for by the method's
  name and the arguments of the call; a window past the end of the video raises.
\<close>

definition ex_frames ::
  "string \<Rightarrow> real \<Rightarrow> real \<Rightarrow> real \<Rightarrow> int \<Rightarrow> error + string \<times> real \<times> real \<times> int" where
  "ex_frames name duration s e c =
     (if e \<le> duration then Inr (name, s, e, c) else Inl (LibError ''OutOfRangeError''))"

definition ex_video :: "real \<Rightarrow> (string \<times> real \<times> real \<times> int) video_handler" where
  "ex_video duration =
     \<lparr>get_frames = ex_frames ''face'' duration,
      get_eye_frames = ex_frames ''eye'' duration,
      get_optical_flow_frames = ex_frames ''opticalflow'' duration\<rparr>"

definition ex_dp :: "real \<Rightarrow> exp_data \<Rightarrow> (string \<times> real \<times> real \<times> int) dp_lib" where
  "ex_dp duration session =
     \<lparr>getExperimentInfo = (\<lambda>p. Inr (p @ ''/log.json'', p @ ''/rec.mp4'', ''p01'')),
      dp_ExperimentData = (\<lambda>j. Inr session),
      dp_VideoHandler = (\<lambda>v. Inr (ex_video duration))\<rparr>"

definition ex_cli :: "string \<Rightarrow> bool \<Rightarrow> cli" where
  "ex_cli m lv =
     \<lparr>cli_ProcessingMethod = m, cli_ExperimentData = ''/data/s1'',
      cli_output = Some ''/out'', cli_crop = None, cli_lecture_video = lv\<rparr>"

definition ex_config :: "string \<Rightarrow> bool \<Rightarrow> config" where
  "ex_config m lv =
     \<lparr>method_str = m, exp_data_path = ''/data/s1'', output_path = ''/out'', cropsize = 64,
      lecture_video = lv, exp_json = ''/data/s1/log.json'', video_path = ''/data/s1/rec.mp4'',
      participant = ''p01''\<rparr>"

section \<open>Properties of the score matrix\<close>













lemma add_subject_data_step:
  assumes "ExperimentData p = Inr ed" and "subject_row ed = Inr data"
  shows "add_subject_data ExperimentData Sentinel p = Inr (Matrix [data])"
    and "add_subject_data ExperimentData (Matrix rows) p =
           Inr (Matrix (if data_any (Matrix rows) then rows @ [data] else [data]))"
  using assms by (simp_all add: add_subject_data_def)











section \<open>Properties of the run\<close>

subsection \<open>Loops and their traces\<close>

lemma io_bind_emit [simp]: "io_bind (io_emit ev) k = (fst (k ()), ev # snd (k ()))"
  by (simp add: io_bind_def io_emit_def split: prod.splits)

lemma io_bind_lift_Inr [simp]: "io_bind (io_lift (Inr x)) k = k x"
  by (simp add: io_bind_def io_lift_def split: prod.splits)

lemma io_bind_lift_Inl [simp]: "io_bind (io_lift (Inl e)) k = (Inl e, [])"
  by (simp add: io_bind_def io_lift_def)

lemma io_bind_Inl [simp]: "io_bind (Inl e, evs) k = (Inl e, evs)"
  by (simp add: io_bind_def)

lemma io_bind_Inr [simp]: "io_bind (Inr x, evs) k = (fst (k x), evs @ snd (k x))"
  by (simp add: io_bind_def split: prod.splits)

lemma io_bind_fst_Inl: "fst m = Inl e \<Longrightarrow> io_bind m k = (Inl e, snd m)"
  by (cases m) (simp add: io_bind_def)

lemma io_bind_fst_Inr: "fst m = Inr x \<Longrightarrow> io_bind m k = (fst (k x), snd m @ snd (k x))"
  by (cases m) (simp add: io_bind_def split: prod.splits)

lemma for_each_ok:
  "\<forall>x \<in> set xs. fst (body x) = Inr () \<Longrightarrow>
   for_each body xs = (Inr (), concat (map (\<lambda>x. snd (body x)) xs))"
proof (induction xs)
  case Nil
  then show ?case by simp
next
  case (Cons x xs)
  then have h: "fst (body x) = Inr ()" by simp
  from Cons show ?case by (simp add: io_bind_fst_Inr [OF h])
qed

lemma for_each_fail:
  "\<forall>x \<in> set pre. fst (body x) = Inr () \<Longrightarrow> fst (body y) = Inl e \<Longrightarrow>
   for_each body (pre @ y # post) = (Inl e, concat (map (\<lambda>x. snd (body x)) pre) @ snd (body y))"
proof (induction pre)
  case Nil
  then have h: "fst (body y) = Inl e" by simp
  show ?case by (simp add: io_bind_fst_Inl [OF h])
next
  case (Cons x pre)
  then have h: "fst (body x) = Inr ()" by simp
  from Cons show ?case by (simp add: io_bind_fst_Inr [OF h])
qed

lemma for_each_cases:
  "(fst (for_each body xs) = Inr () \<and> (\<forall>x \<in> set xs. fst (body x) = Inr ()))
   \<or> (\<exists>pre y post e. xs = pre @ y # post \<and> (\<forall>x \<in> set pre. fst (body x) = Inr ())
        \<and> fst (body y) = Inl e)"
proof (induction xs)
  case Nil
  then show ?case by simp
next
  case (Cons x xs)
  show ?case
  proof (cases "fst (body x)")
    case (Inl e)
    then have "x # xs = [] @ x # xs \<and> (\<forall>x \<in> set []. fst (body x) = Inr ()) \<and> fst (body x) = Inl e"
      by simp
    then show ?thesis by blast
  next
    case (Inr u)
    then have bx: "fst (body x) = Inr ()" by simp
    from Cons show ?thesis
    proof
      assume a: "fst (for_each body xs) = Inr () \<and> (\<forall>x \<in> set xs. fst (body x) = Inr ())"
      with bx have all: "\<forall>y \<in> set (x # xs). fst (body y) = Inr ()" by simp
      from for_each_ok [OF all] all show ?thesis by simp
    next
      assume "\<exists>pre y post e. xs = pre @ y # post \<and> (\<forall>x \<in> set pre. fst (body x) = Inr ())
        \<and> fst (body y) = Inl e"
      then obtain pre y post e where
        p: "xs = pre @ y # post" "\<forall>x \<in> set pre. fst (body x) = Inr ()" "fst (body y) = Inl e"
        by blast
      with bx have "x # xs = (x # pre) @ y # post \<and> (\<forall>z \<in> set (x # pre). fst (body z) = Inr ())
          \<and> fst (body y) = Inl e" by simp
      then show ?thesis by blast
    qed
  qed
qed

lemma for_each_trace_prefix:
  "\<exists>k \<le> length xs. snd (for_each body xs) = concat (map (\<lambda>x. snd (body x)) (take k xs))
      \<and> (fst (for_each body xs) = Inr () \<longrightarrow> k = length xs)"
proof -
  from for_each_cases [of body xs] show ?thesis
  proof
    assume a: "fst (for_each body xs) = Inr () \<and> (\<forall>x \<in> set xs. fst (body x) = Inr ())"
    then have "snd (for_each body xs) = concat (map (\<lambda>x. snd (body x)) (take (length xs) xs))"
      using for_each_ok [of xs body] by simp
    then show ?thesis by blast
  next
    assume "\<exists>pre y post e. xs = pre @ y # post \<and> (\<forall>x \<in> set pre. fst (body x) = Inr ())
        \<and> fst (body y) = Inl e"
    then obtain pre y post e where
      p: "xs = pre @ y # post" "\<forall>x \<in> set pre. fst (body x) = Inr ()" "fst (body y) = Inl e"
      by blast
    from for_each_fail [OF p(2,3), of post] p(1)
    have r: "for_each body xs = (Inl e, concat (map (\<lambda>x. snd (body x)) pre) @ snd (body y))"
      by simp
    have "take (Suc (length pre)) xs = pre @ [y]" using p(1) by simp
    with r have "snd (for_each body xs) = concat (map (\<lambda>x. snd (body x)) (take (Suc (length pre)) xs))"
      by simp
    moreover have "Suc (length pre) \<le> length xs" using p(1) by simp
    moreover have "fst (for_each body xs) \<noteq> Inr ()" using r by simp
    ultimately show ?thesis by blast
  qed
qed


subsection \<open>One trial, one level\<close>

lemma trial_body_eq:
  "trial_body cfg pf n (i, t) =
     (case pf (trial_start t) (trial_end t) (cropsize cfg) of
        Inl e \<Rightarrow> (Inl e, [Print (''  Trial '' @ str_nat (i + 1)),
                      ProcessFrames (trial_start t) (trial_end t) (cropsize cfg)])
      | Inr frames \<Rightarrow> (Inr (),
           [Print (''  Trial '' @ str_nat (i + 1)),
            ProcessFrames (trial_start t) (trial_end t) (cropsize cfg),
            SaveNpy (trial_out cfg n i @ ''.npy'') frames,
            WriteJson (trial_out cfg n i @ ''.json'')
              [(''n'', JInt (int n)), (''score'', JNum (trial_score t))]]))"
  by (simp add: trial_body_def call_process_frames_def io_emit_def split: sum.splits)

lemma level_body_eq:
  "get_trials ed n = Inr ts \<Longrightarrow>
   level_body cfg ed pf n =
     (fst (for_each (trial_body cfg pf n) (enumerate 0 ts)),
      Print (''N='' @ str_nat n) # snd (for_each (trial_body cfg pf n) (enumerate 0 ts)))"
  by (simp add: level_body_def)


subsection \<open>Validation\<close>





subsection \<open>The dispatch on the method\<close>

lemma getitem_method_functions:
  "m \<in> set choices \<Longrightarrow>
   getitem (method_functions vh) m =
     Inr (if m = ''face'' then get_frames vh
          else if m = ''eye'' then get_eye_frames vh else get_optical_flow_frames vh)"
  by (auto simp: choices_def getitem_def method_functions_def)

subsection \<open>The part of the run after validation\<close>

lemma process_eq:
  assumes "dp_ExperimentData dp (exp_json cfg) = Inr ed"
      and "dp_VideoHandler dp (video_path cfg) = Inr vh"
      and "getitem (method_functions vh) (method_str cfg) = Inr pf"
      and "branch = (if \<not> lecture_video cfg then process_trials cfg ed pf
                     else process_lecture cfg ed pf)"
  shows "process dp cfg =
     (fst branch,
      print_header cfg @ [MakeDirs (os_path_join (output_path cfg) [participant cfg])]
        @ snd branch
        @ (case fst branch of Inl e \<Rightarrow> []
           | Inr u \<Rightarrow> [Print (''Output written to ''
                          @ os_path_join (output_path cfg) [participant cfg])]))"
proof -
  let ?fin = "Print (''Output written to '' @ os_path_join (output_path cfg) [participant cfg])"
  have p: "process dp cfg =
      (fst (io_bind branch (\<lambda>_. io_emit ?fin)),
       print_header cfg @ MakeDirs (os_path_join (output_path cfg) [participant cfg])
         # snd (io_bind branch (\<lambda>_. io_emit ?fin)))"
    unfolding process_def assms(4)
    by (simp add: assms(1-3) split del: if_split)
  show ?thesis
  proof (cases "fst branch")
    case (Inl e)
    then show ?thesis
      by (simp add: p io_bind_fst_Inl [OF Inl])
  next
    case (Inr u)
    then show ?thesis
      by (simp add: p io_emit_def io_bind_fst_Inr [OF Inr])
  qed
qed

lemma process_trials_eq:
  "process_trials cfg ed pf =
     (fst (for_each (level_body cfg ed pf) [1..<6]),
      Print ''Processing N-levels...'' # snd (for_each (level_body cfg ed pf) [1..<6]))"
  by (simp add: process_trials_def del: upt_Suc)


subsection \<open>Traces of the trial loop\<close>

lemma trial_body_ok:
  "pf (trial_start t) (trial_end t) (cropsize cfg) = Inr frames \<Longrightarrow>
   trial_body cfg pf n (i, t) =
     (Inr (), [Print (''  Trial '' @ str_nat (i + 1)),
               ProcessFrames (trial_start t) (trial_end t) (cropsize cfg),
               SaveNpy (trial_out cfg n i @ ''.npy'') frames,
               WriteJson (trial_out cfg n i @ ''.json'')
                 [(''n'', JInt (int n)), (''score'', JNum (trial_score t))]])"
  by (simp add: trial_body_eq)

lemma trial_body_fail:
  "pf (trial_start t) (trial_end t) (cropsize cfg) = Inl e \<Longrightarrow>
   trial_body cfg pf n (i, t) =
     (Inl e, [Print (''  Trial '' @ str_nat (i + 1)),
              ProcessFrames (trial_start t) (trial_end t) (cropsize cfg)])"
  by (simp add: trial_body_eq)









subsection \<open>From the branch to the whole run\<close>

lemma run_branch:
  assumes v: "validate env dp c = Inr cfg"
      and ed: "dp_ExperimentData dp (exp_json cfg) = Inr ed"
      and vh: "dp_VideoHandler dp (video_path cfg) = Inr vh"
      and pf: "getitem (method_functions vh) (method_str cfg) = Inr pf"
      and br: "branch = (if \<not> lecture_video cfg then process_trials cfg ed pf
                     else process_lecture cfg ed pf)"
  shows "fst (run env dp c) = fst branch"
    and "snd (run env dp c) =
      print_header cfg @ [MakeDirs (os_path_join (output_path cfg) [participant cfg])]
        @ snd branch
        @ (case fst branch of Inl e \<Rightarrow> []
           | Inr u \<Rightarrow> [Print (''Output written to ''
                          @ os_path_join (output_path cfg) [participant cfg])])"
    and "(\<And>s. \<not> P (Print s)) \<Longrightarrow> (\<And>s. \<not> P (MakeDirs s)) \<Longrightarrow>
         filter P (snd (run env dp c)) = filter P (snd branch)"
proof -
  have r: "run env dp c = process dp cfg" by (simp add: run_def v)
  note p = process_eq [OF ed vh pf br]
  show "fst (run env dp c) = fst branch" by (simp add: r p)
  show "snd (run env dp c) =
      print_header cfg @ [MakeDirs (os_path_join (output_path cfg) [participant cfg])]
        @ snd branch
        @ (case fst branch of Inl e \<Rightarrow> []
           | Inr u \<Rightarrow> [Print (''Output written to ''
                          @ os_path_join (output_path cfg) [participant cfg])])"
    by (simp add: r p)
  show "filter P (snd (run env dp c)) = filter P (snd branch)"
    if np: "\<And>s. \<not> P (Print s)" and nm: "\<And>s. \<not> P (MakeDirs s)"
  proof -
    have h: "filter P (print_header cfg) = []"
      unfolding print_header_def by (simp only: filter.simps np if_False)
    have t: "filter P (case fst branch of Inl e \<Rightarrow> []
           | Inr u \<Rightarrow> [Print (''Output written to ''
                          @ os_path_join (output_path cfg) [participant cfg])]) = []"
      by (cases "fst branch") (simp_all only: sum.case filter.simps np if_False)
    have "snd (run env dp c) =
      print_header cfg @ [MakeDirs (os_path_join (output_path cfg) [participant cfg])]
        @ snd branch
        @ (case fst branch of Inl e \<Rightarrow> []
           | Inr u \<Rightarrow> [Print (''Output written to ''
                          @ os_path_join (output_path cfg) [participant cfg])])"
      by (simp add: r p)
    then have "filter P (snd (run env dp c)) =
      filter P (print_header cfg)
        @ filter P [MakeDirs (os_path_join (output_path cfg) [participant cfg])]
        @ filter P (snd branch)
        @ filter P (case fst branch of Inl e \<Rightarrow> []
           | Inr u \<Rightarrow> [Print (''Output written to ''
                          @ os_path_join (output_path cfg) [participant cfg])])"
      by (simp only: filter_append)
    also have "filter P [MakeDirs (os_path_join (output_path cfg) [participant cfg])] = []"
      by (simp only: filter.simps nm if_False)
    finally show ?thesis
      unfolding h t by simp
  qed
qed


subsection \<open>Output names\<close>

lemma str_nat_digit: "n < 10 \<Longrightarrow> str_nat n = [digit_char n]"
  by (simp add: str_nat.simps)

lemma join_step_rel:
  "b \<noteq> [] \<Longrightarrow> hd b \<noteq> CHR ''/'' \<Longrightarrow>
   join_step path b = (if path = [] \<or> last path = CHR ''/'' then path else path @ ''/'') @ b"
  by (simp add: join_step_def)

lemma trial_out_digit:
  "n < 10 \<Longrightarrow> i < 10 \<Longrightarrow>
   trial_out cfg n i =
     (if join_step (output_path cfg) (participant cfg) = []
         \<or> last (join_step (output_path cfg) (participant cfg)) = CHR ''/''
      then join_step (output_path cfg) (participant cfg)
      else join_step (output_path cfg) (participant cfg) @ ''/'')
     @ digit_char n # CHR ''-'' # digit_char i # CHR ''-'' # method_str cfg"
proof -
  assume n: "n < 10" and i: "i < 10"
  have d: "digit_char n \<noteq> CHR ''/''"
    using n unfolding digit_char_def
    by (auto simp: less_Suc_eq numeral_eq_Suc)
  show ?thesis
    unfolding trial_out_def os_path_join_def
    using d by (simp add: str_nat_digit n i join_step_rel)
qed










lemma ex_validate:
  "validate ex_env (ex_dp d s) (ex_cli ''face'' False) = Inr (ex_config ''face'' False)"
  "validate ex_env (ex_dp d s) (ex_cli ''eye'' False) = Inr (ex_config ''eye'' False)"
  "validate ex_env (ex_dp d s) (ex_cli ''opticalflow'' True) = Inr (ex_config ''opticalflow'' True)"
  "validate ex_env (ex_dp d s) (ex_cli ''face'' True) = Inr (ex_config ''face'' True)"
  by code_simp+






subsection \<open>Where an artifact of a run comes from\<close>

lemma not_artifact_header: "ev \<in> set (print_header cfg) \<Longrightarrow> \<not> is_artifact ev"
  by (auto simp: print_header_def)





















subsection \<open>The frame calls of a run\<close>








text \<open>
  Claim C6. In trial mode the effects of a run come in the order of the two loops: after the
  header and the creation of the output directory, the traces of the levels 1, 2, ... follow
  one another (all five when the run completes); the trace of a level is its heading and
  then the traces of its trials in the order of their index (all of them when the level
  completes); and the trace of a trial is its heading, the frame call and, when that call
  returns, the writing of the array and then of the label. So a trial's frame call comes
  after everything the previous trials wrote, and before its own two writes.
\<close>

theorem trials_processed_in_order:
  assumes v: "validate env dp c = Inr cfg"
      and nl: "\<not> lecture_video cfg"
      and ed: "dp_ExperimentData dp (exp_json cfg) = Inr ed"
      and vh: "dp_VideoHandler dp (video_path cfg) = Inr vh"
      and pf: "getitem (method_functions vh) (method_str cfg) = Inr pf"
  shows "(\<exists>k \<le> 5.
            snd (run env dp c) =
              print_header cfg
              @ [MakeDirs (os_path_join (output_path cfg) [participant cfg]),
                 Print ''Processing N-levels...'']
              @ concat (map (\<lambda>n. snd (level_body cfg ed pf n)) [1..<Suc k])
              @ (case fst (run env dp c) of
                   Inl e \<Rightarrow> []
                 | Inr u \<Rightarrow> [Print (''Output written to ''
                                @ os_path_join (output_path cfg) [participant cfg])])
          \<and> (fst (run env dp c) = Inr () \<longrightarrow> k = 5))
       \<and> (\<forall>n ts. get_trials ed n = Inr ts \<longrightarrow>
            (\<exists>j \<le> length ts.
               snd (level_body cfg ed pf n) =
                 Print (''N='' @ str_nat n)
                 # concat (map (\<lambda>(i, t). snd (trial_body cfg pf n (i, t)))
                     (take j (enumerate 0 ts)))
             \<and> (fst (level_body cfg ed pf n) = Inr () \<longrightarrow> j = length ts)))
       \<and> (\<forall>n i t. snd (trial_body cfg pf n (i, t)) =
            [Print (''  Trial '' @ str_nat (i + 1)),
             ProcessFrames (trial_start t) (trial_end t) (cropsize cfg)]
            @ (case pf (trial_start t) (trial_end t) (cropsize cfg) of
                 Inl e \<Rightarrow> []
               | Inr frames \<Rightarrow>
                   [SaveNpy (trial_out cfg n i @ ''.npy'') frames,
                    WriteJson (trial_out cfg n i @ ''.json'')
                      [(''n'', JInt (int n)), (''score'', JNum (trial_score t))]]))"
proof (intro conjI allI impI)
  from nl have br: "process_trials cfg ed pf =
      (if \<not> lecture_video cfg then process_trials cfg ed pf else process_lecture cfg ed pf)"
    by simp
  note rb = run_branch(1,2) [OF v ed vh pf br]
  from for_each_trace_prefix [of "[1..<6]" "level_body cfg ed pf"] obtain k where
    k: "k \<le> length [1..<6]" and
    tr: "snd (for_each (level_body cfg ed pf) [1..<6]) =
           concat (map (\<lambda>n. snd (level_body cfg ed pf n)) (take k [1..<6]))" and
    full: "fst (for_each (level_body cfg ed pf) [1..<6]) = Inr () \<longrightarrow> k = length [1..<6]"
    by blast
  from k have k5: "k \<le> 5" by simp
  then have tk: "take k [1..<6] = [1..<Suc k]" by (simp add: take_upt del: upt_Suc)
  have f: "fst (run env dp c) = fst (for_each (level_body cfg ed pf) [1..<6])"
    unfolding rb(1) process_trials_eq by simp
  have s: "snd (run env dp c) =
              print_header cfg
              @ [MakeDirs (os_path_join (output_path cfg) [participant cfg]),
                 Print ''Processing N-levels...'']
              @ concat (map (\<lambda>n. snd (level_body cfg ed pf n)) [1..<Suc k])
              @ (case fst (run env dp c) of
                   Inl e \<Rightarrow> []
                 | Inr u \<Rightarrow> [Print (''Output written to ''
                                @ os_path_join (output_path cfg) [participant cfg])])"
    unfolding rb(2) f unfolding process_trials_eq snd_conv fst_conv tr tk by simp
  from full f have "fst (run env dp c) = Inr () \<longrightarrow> k = 5" by simp
  with k5 s show "\<exists>k \<le> 5.
            snd (run env dp c) =
              print_header cfg
              @ [MakeDirs (os_path_join (output_path cfg) [participant cfg]),
                 Print ''Processing N-levels...'']
              @ concat (map (\<lambda>n. snd (level_body cfg ed pf n)) [1..<Suc k])
              @ (case fst (run env dp c) of
                   Inl e \<Rightarrow> []
                 | Inr u \<Rightarrow> [Print (''Output written to ''
                                @ os_path_join (output_path cfg) [participant cfg])])
          \<and> (fst (run env dp c) = Inr () \<longrightarrow> k = 5)"
    by blast
next
  fix n ts assume g: "get_trials ed n = Inr ts"
  from for_each_trace_prefix [of "enumerate 0 ts" "trial_body cfg pf n"] obtain j where
    j: "j \<le> length (enumerate 0 ts)" and
    tr: "snd (for_each (trial_body cfg pf n) (enumerate 0 ts)) =
           concat (map (\<lambda>x. snd (trial_body cfg pf n x)) (take j (enumerate 0 ts)))" and
    full: "fst (for_each (trial_body cfg pf n) (enumerate 0 ts)) = Inr ()
             \<longrightarrow> j = length (enumerate 0 ts)"
    by blast
  have e: "(\<lambda>x. snd (trial_body cfg pf n x)) = (\<lambda>(i, t). snd (trial_body cfg pf n (i, t)))"
    by auto
  from j tr full show "\<exists>j \<le> length ts.
               snd (level_body cfg ed pf n) =
                 Print (''N='' @ str_nat n)
                 # concat (map (\<lambda>(i, t). snd (trial_body cfg pf n (i, t)))
                     (take j (enumerate 0 ts)))
             \<and> (fst (level_body cfg ed pf n) = Inr () \<longrightarrow> j = length ts)"
    unfolding level_body_eq [OF g] e by (intro exI [of _ j]) simp
next
  fix n i t
  show "snd (trial_body cfg pf n (i, t)) =
            [Print (''  Trial '' @ str_nat (i + 1)),
             ProcessFrames (trial_start t) (trial_end t) (cropsize cfg)]
            @ (case pf (trial_start t) (trial_end t) (cropsize cfg) of
                 Inl e \<Rightarrow> []
               | Inr frames \<Rightarrow>
                   [SaveNpy (trial_out cfg n i @ ''.npy'') frames,
                    WriteJson (trial_out cfg n i @ ''.json'')
                      [(''n'', JInt (int n)), (''score'', JNum (trial_score t))]])"
    by (simp add: trial_body_eq split: sum.splits)
qed

lemma ex_run_completes:
  "fst (run ex_env (ex_dp 300 (ex_session 0)) (ex_cli ''face'' False)) = Inr ()"
  by code_simp

theorem trials_processed_in_order_witness:
  "validate ex_env (ex_dp 300 (ex_session 0)) (ex_cli ''face'' False) = Inr (ex_config ''face'' False)
   \<and> \<not> lecture_video (ex_config ''face'' False)
   \<and> snd (run ex_env (ex_dp 300 (ex_session 0)) (ex_cli ''face'' False)) ! 10
       = Print ''Processing N-levels...''
   \<and> last (snd (run ex_env (ex_dp 300 (ex_session 0)) (ex_cli ''face'' False)))
       = Print ''Output written to /out/p01''
   \<and> snd (trial_body (ex_config ''face'' False) (ex_frames ''face'' 300) 2
            (3, \<lparr>trial_start = 80, trial_end = 88, trial_score = 3\<rparr>)) =
       [Print ''  Trial 4'', ProcessFrames 80 88 64,
        SaveNpy ''/out/p01/2-3-face.npy'' (''face'', 80, 88, 64),
        WriteJson ''/out/p01/2-3-face.json'' [(''n'', JInt 2), (''score'', JNum 3)]]"
proof -
  let ?cfg = "ex_config ''face'' False"
  let ?dp = "ex_dp 300 (ex_session 0)"
  let ?c = "ex_cli ''face'' False"
  have v: "validate ex_env ?dp ?c = Inr ?cfg" by (rule ex_validate)
  have nl: "\<not> lecture_video ?cfg" by (simp add: ex_config_def)
  have ed: "dp_ExperimentData ?dp (exp_json ?cfg) = Inr (ex_session 0)"
    by (simp add: ex_dp_def)
  have vh: "dp_VideoHandler ?dp (video_path ?cfg) = Inr (ex_video 300)"
    by (simp add: ex_dp_def)
  have pf: "getitem (method_functions (ex_video 300)) (method_str ?cfg) = Inr (ex_frames ''face'' 300)"
    by (simp add: getitem_def method_functions_def ex_video_def ex_config_def)
  note inst = trials_processed_in_order [OF v nl ed vh pf]
  from inst obtain k where
    tr: "snd (run ex_env ?dp ?c) =
              print_header ?cfg
              @ [MakeDirs (os_path_join (output_path ?cfg) [participant ?cfg]),
                 Print ''Processing N-levels...'']
              @ concat (map (\<lambda>n. snd (level_body ?cfg (ex_session 0) (ex_frames ''face'' 300) n))
                  [1..<Suc k])
              @ (case fst (run ex_env ?dp ?c) of
                   Inl e \<Rightarrow> []
                 | Inr u \<Rightarrow> [Print (''Output written to ''
                                @ os_path_join (output_path ?cfg) [participant ?cfg])])"
    by blast
  have a: "snd (run ex_env ?dp ?c) ! 10 = Print ''Processing N-levels...''"
    unfolding tr by (simp add: print_header_def)
  have "last (snd (run ex_env ?dp ?c)) =
      Print (''Output written to '' @ os_path_join (output_path ?cfg) [participant ?cfg])"
    unfolding tr ex_run_completes by simp
  then have b: "last (snd (run ex_env ?dp ?c)) = Print ''Output written to /out/p01''"
    by (simp add: os_path_join_def join_step_def ex_config_def)
  from inst have "\<forall>n i t. snd (trial_body ?cfg (ex_frames ''face'' 300) n (i, t)) =
            [Print (''  Trial '' @ str_nat (i + 1)),
             ProcessFrames (trial_start t) (trial_end t) (cropsize ?cfg)]
            @ (case ex_frames ''face'' 300 (trial_start t) (trial_end t) (cropsize ?cfg) of
                 Inl e \<Rightarrow> []
               | Inr frames \<Rightarrow>
                   [SaveNpy (trial_out ?cfg n i @ ''.npy'') frames,
                    WriteJson (trial_out ?cfg n i @ ''.json'')
                      [(''n'', JInt (int n)), (''score'', JNum (trial_score t))]])"
    by blast
  from this [rule_format, of 2 3 "\<lparr>trial_start = 80, trial_end = 88, trial_score = 3\<rparr>"]
  have c: "snd (trial_body ?cfg (ex_frames ''face'' 300) 2
            (3, \<lparr>trial_start = 80, trial_end = 88, trial_score = 3\<rparr>)) =
       [Print ''  Trial 4'', ProcessFrames 80 88 64,
        SaveNpy ''/out/p01/2-3-face.npy'' (''face'', 80, 88, 64),
        WriteJson ''/out/p01/2-3-face.json'' [(''n'', JInt 2), (''score'', JNum 3)]]"
    by (simp add: ex_frames_def ex_config_def trial_out_digit join_step_def digit_char_def
        str_nat_digit)
  from v nl a b c show ?thesis by blast
qed

section \<open>Properties of the optical-flow method\<close>

lemma OpticalFlowEncoder_length:
  "length (OpticalFlowEncoder encode chunk) = length chunk - 1"
  by (induction encode chunk rule: OpticalFlowEncoder.induct) simp_all

lemma OpticalFlowEncoder_nth:
  "Suc k < length chunk \<Longrightarrow>
   OpticalFlowEncoder encode chunk ! k = encode (chunk ! k) (chunk ! Suc k)"
proof (induction encode chunk arbitrary: k rule: OpticalFlowEncoder.induct)
  case (1 encode a b rest)
  then show ?case by (cases k) simp_all
qed simp_all

text \<open>
  Claim C3. The method chosen for \<open>opticalflow\<close> is the handler's optical-flow method, and
  the encoder, applied across a chunk of \<open>N \<ge> 2\<close> frames, yields exactly \<open>N - 1\<close>
  optical-flow frames: the \<open>k\<close>-th is the encoding of the frames \<open>k\<close> and \<open>k + 1\<close>.
\<close>

theorem optical_flow_frame_count:
  assumes "2 \<le> length chunk"
  shows "Suc (length (OpticalFlowEncoder encode chunk)) = length chunk
       \<and> (\<forall>k. Suc k < length chunk \<longrightarrow>
            OpticalFlowEncoder encode chunk ! k = encode (chunk ! k) (chunk ! Suc k))
       \<and> getitem (method_functions vh) ''opticalflow'' = Inr (get_optical_flow_frames vh)"
  using assms
  by (simp add: OpticalFlowEncoder_length OpticalFlowEncoder_nth getitem_def method_functions_def)

theorem optical_flow_frame_count_witness:
  "2 \<le> length [3, 5, 4 :: nat]
   \<and> Suc (length (OpticalFlowEncoder (\<lambda>a b. (a, b)) [3, 5, 4 :: nat])) = length [3, 5, 4 :: nat]
   \<and> OpticalFlowEncoder (\<lambda>a b. (a, b)) [3, 5, 4 :: nat] ! 1 = (5, 4)
   \<and> getitem (method_functions (ex_video 300)) ''opticalflow''
        = Inr (get_optical_flow_frames (ex_video 300))"
proof -
  have h: "2 \<le> length [3, 5, 4 :: nat]" by simp
  note inst = optical_flow_frame_count [OF h, of "\<lambda>a b. (a, b)" "ex_video 300"]
  from inst have "Suc 1 < length [3, 5, 4 :: nat] \<longrightarrow>
      OpticalFlowEncoder (\<lambda>a b. (a, b)) [3, 5, 4 :: nat] ! 1 = ([3, 5, 4] ! 1, [3, 5, 4] ! Suc 1)"
    by blast
  then have "OpticalFlowEncoder (\<lambda>a b. (a, b)) [3, 5, 4 :: nat] ! 1 = (5, 4)" by simp
  with h inst show ?thesis by blast
qed

end
